theory Spec2Isabelle
  imports Main
begin

section \<open>The assessment status page: data model\<close>

text \<open>
  The embedded source is the component \<^verbatim>\<open>AssessmentPage\<close> together with the
  function \<^verbatim>\<open>normalizeResults\<close> and the declarations of \<^verbatim>\<open>types.ts\<close>.

  The response of the status endpoint is decoded JSON that is handed on unvalidated, so a
  field that the interface declares as \<^verbatim>\<open>string\<close> can still be absent at run time.
  Every string field of the payload is therefore a \<open>string option\<close>, where \<open>None\<close>
  stands for \<^verbatim>\<open>undefined\<close> or \<^verbatim>\<open>null\<close>. The metadata bag \<^verbatim>\<open>result\<close> of a side
  is never read by the page and is left out.
\<close>

datatype AssessmentStatus = Pending | In_progress | Complete | Failed | Not_found

record SideAssessment =
  pickup_image :: "string option"
  return_image :: "string option"
  annotated_return_image :: "string option"

record AssessmentDisplayResult =
  pickupUrl :: "string option"
  resultUrl :: "string option"

text \<open>
  \<^verbatim>\<open>AssessmentResultMap\<close> is an object with open string keys whose values may be
  undefined; \<^verbatim>\<open>Object.entries\<close> lists it as key/value pairs, which is the form kept here.
  \<^verbatim>\<open>ResultsState\<close> is the object that the loop fills by key.
\<close>

type_synonym AssessmentResultMap = "(string \<times> SideAssessment option) list"

type_synonym ResultsState = "string \<rightharpoonup> AssessmentDisplayResult"

text \<open>
  Of \<^verbatim>\<open>AssessmentResponse\<close> the page reads \<^verbatim>\<open>status\<close>, \<^verbatim>\<open>results\<close> and
  \<^verbatim>\<open>summary\<close> (as \<^verbatim>\<open>response.data.status\<close> and so on); the fields \<^verbatim>\<open>created_at\<close>,
  \<^verbatim>\<open>completed_at\<close> and \<^verbatim>\<open>error\<close> are never read.
\<close>

record AssessmentResponse =
  data_status :: AssessmentStatus
  data_results :: "AssessmentResultMap option"
  data_summary :: "string option"

section \<open>JavaScript operators used by the page\<close>

text \<open>\<^verbatim>\<open>a ?? b\<close>: the right operand is taken only when the left one is null or undefined.\<close>

definition nullish :: "'a option \<Rightarrow> 'a option \<Rightarrow> 'a option" where
  "nullish a b = (case a of None \<Rightarrow> b | Some x \<Rightarrow> Some x)"

text \<open>Truthiness of an optional string: null, undefined and the empty string are falsy.\<close>

definition truthy :: "string option \<Rightarrow> bool" where
  "truthy a = (case a of None \<Rightarrow> False | Some x \<Rightarrow> x \<noteq> [])"

text \<open>\<^verbatim>\<open>a || b\<close> on optional strings: the left operand when it is truthy, else the right one.\<close>

definition or_else :: "string option \<Rightarrow> string option \<Rightarrow> string option" where
  "or_else a b = (if truthy a then a else b)"

section \<open>normalizeResults\<close>

text \<open>
  The body of the \<^verbatim>\<open>for\<close> loop over \<^verbatim>\<open>Object.entries(results)\<close>: an entry whose value
  is falsy is skipped, every other entry is assigned under its key to the plain object
  \<^verbatim>\<open>normalized\<close>.

  A \<^verbatim>\<open>ResultsState\<close> value stands for the own enumerable properties of that object,
  which is all the page ever reads of it (through \<^verbatim>\<open>Object.keys\<close> and
  \<^verbatim>\<open>Object.entries\<close>). On a plain object the assignment
  \<^verbatim>\<open>normalized[side] = {...}\<close> creates or overwrites the own property \<^verbatim>\<open>side\<close> for
  every key but one: for the key \<^verbatim>\<open>__proto__\<close> it runs the setter inherited from
  \<^verbatim>\<open>Object.prototype\<close>, which replaces the prototype of \<^verbatim>\<open>normalized\<close> and adds no
  own property. The raw mapping comes from \<^verbatim>\<open>JSON.parse\<close>, for which
  \<^verbatim>\<open>__proto__\<close> is an ordinary own key, so such an entry can arrive.
\<close>

fun normalizeEntries :: "AssessmentResultMap \<Rightarrow> ResultsState \<Rightarrow> ResultsState" where
  "normalizeEntries [] normalized = normalized"
| "normalizeEntries ((side, sideData) # rest) normalized =
     (case sideData of
        None \<Rightarrow> normalizeEntries rest normalized
      | Some d \<Rightarrow>
          if side = ''__proto__'' then normalizeEntries rest normalized
          else
            normalizeEntries rest
              (normalized(side \<mapsto>
                 \<lparr>pickupUrl = pickup_image d,
                  resultUrl = nullish (annotated_return_image d) (return_image d)\<rparr>)))"

definition normalizeResults :: "AssessmentResultMap option \<Rightarrow> ResultsState" where
  "normalizeResults results =
     (case results of
        None \<Rightarrow> Map.empty
      | Some rs \<Rightarrow> normalizeEntries rs Map.empty)"

section \<open>Page state\<close>

text \<open>
  The six React state variables, the three refs, and the part of the environment that the
  page acts on: the intervals that \<^verbatim>\<open>window.setInterval\<close> has registered and that
  \<^verbatim>\<open>clearInterval\<close> has not removed (identifier and delay), the next identifier the window
  hands out, and the number of GET requests issued so far.
\<close>

record page =
  status :: "AssessmentStatus option"
  results :: ResultsState
  summary :: "string option"
  isPolling :: bool
  error :: "string option"
  isInitialLoading :: bool
  lastStatusRef :: "AssessmentStatus option"
  pollTimerRef :: "nat option"
  isMountedRef :: bool
  intervals :: "(nat \<times> nat) list"
  nextIntervalId :: nat
  requests :: nat

definition initial_page :: page where
  "initial_page =
     \<lparr>status = None, results = Map.empty, summary = None, isPolling = False,
      error = None, isInitialLoading = True, lastStatusRef = None,
      pollTimerRef = None, isMountedRef = True,
      intervals = [], nextIntervalId = 1, requests = 0\<rparr>"

definition POLL_INTERVAL_MS :: nat where
  "POLL_INTERVAL_MS = 5000"

definition setInterval :: "nat \<Rightarrow> page \<Rightarrow> nat \<times> page" where
  "setInterval delay st =
     (nextIntervalId st,
      st\<lparr>intervals := intervals st @ [(nextIntervalId st, delay)],
         nextIntervalId := Suc (nextIntervalId st)\<rparr>)"

definition clearInterval :: "nat \<Rightarrow> page \<Rightarrow> page" where
  "clearInterval t st = st\<lparr>intervals := filter (\<lambda>e. fst e \<noteq> t) (intervals st)\<rparr>"

text \<open>
  The block \<^verbatim>\<open>if (pollTimerRef.current !== null) { clearInterval(...); ... = null; }\<close>,
  which the source repeats in three places.
\<close>

definition clearPollTimer :: "page \<Rightarrow> page" where
  "clearPollTimer st =
     (case pollTimerRef st of
        None \<Rightarrow> st
      | Some t \<Rightarrow> (clearInterval t st)\<lparr>pollTimerRef := None\<rparr>)"

definition shouldContinuePolling :: "AssessmentStatus option \<Rightarrow> bool" where
  "shouldContinuePolling currentStatus =
     (case currentStatus of
        None \<Rightarrow> True
      | Some s \<Rightarrow> s \<notin> set [Complete, Failed, Not_found])"

section \<open>fetchAssessmentStatus\<close>

text \<open>
  The function is asynchronous. Up to the \<^verbatim>\<open>await\<close> it checks \<^verbatim>\<open>uploadId\<close> and
  issues the request; the rest runs when the request settles, on the state of that later
  moment. The callback reads \<^verbatim>\<open>isInitialLoading\<close> from its closure, that is the value
  of the render that created the callback, which is passed as \<open>isInitialLoading_c\<close>; the
  refs are read from the current state.
\<close>

definition fetchAssessmentStatus_request :: "string option \<Rightarrow> page \<Rightarrow> page" where
  "fetchAssessmentStatus_request uploadId st =
     (if \<not> truthy uploadId then st else st\<lparr>requests := Suc (requests st)\<rparr>)"

definition fetchAssessmentStatus_fulfilled :: "bool \<Rightarrow> AssessmentResponse \<Rightarrow> page \<Rightarrow> page" where
  "fetchAssessmentStatus_fulfilled isInitialLoading_c response st =
     (if \<not> isMountedRef st then st
      else
        let s = data_status response;
            st1 =
              (if Some s \<noteq> lastStatusRef st \<or> isInitialLoading_c then
                 let a = st\<lparr>status := Some s, lastStatusRef := Some s\<rparr>;
                     b = (case data_results response of
                            None \<Rightarrow> a
                          | Some rs \<Rightarrow> a\<lparr>results := normalizeResults (Some rs)\<rparr>);
                     c = (if truthy (data_summary response)
                          then b\<lparr>summary := data_summary response\<rparr> else b)
                 in c\<lparr>error := None\<rparr>
               else st);
            st2 = (if isInitialLoading_c then st1\<lparr>isInitialLoading := False\<rparr> else st1)
        in if \<not> shouldContinuePolling (Some s)
           then clearPollTimer (st2\<lparr>isPolling := False\<rparr>)
           else st2)"

text \<open>
  What the \<^verbatim>\<open>catch\<close> clause can receive: an axios error with the HTTP status of its
  response (if any), the fields \<^verbatim>\<open>detail\<close> and \<^verbatim>\<open>message\<close> of the response body and
  its own \<^verbatim>\<open>message\<close>; or any other thrown value with its \<^verbatim>\<open>message\<close>.
  The fields are taken as strings, which is the type of the \<^verbatim>\<open>error\<close> state that
  \<^verbatim>\<open>setError\<close> stores them into; a body whose \<^verbatim>\<open>detail\<close> is not a string has no
  term here.
\<close>

datatype fetch_failure =
    AxiosError "nat option" "string option" "string option" "string option"
  | OtherError "string option"

definition failure_message :: "fetch_failure \<Rightarrow> string" where
  "failure_message e =
     (case e of
        AxiosError code detail body_message message \<Rightarrow>
          (case or_else (or_else (or_else detail body_message) message)
                  (Some ''Unable to contact the assessment service. Please check your connection.'') of
             Some m \<Rightarrow> m
           | None \<Rightarrow> [])
      | OtherError message \<Rightarrow>
          (case nullish message
                  (Some ''An unexpected error occurred while fetching assessment status.'') of
             Some m \<Rightarrow> m
           | None \<Rightarrow> []))"

definition is_404 :: "fetch_failure \<Rightarrow> bool" where
  "is_404 e = (case e of AxiosError code _ _ _ \<Rightarrow> code = Some 404 | OtherError _ \<Rightarrow> False)"

definition fetchAssessmentStatus_rejected :: "bool \<Rightarrow> fetch_failure \<Rightarrow> page \<Rightarrow> page" where
  "fetchAssessmentStatus_rejected isInitialLoading_c e st =
     (if \<not> isMountedRef st then st
      else if is_404 e then
        let st1 = clearPollTimer
                    (st\<lparr>status := Some Not_found, lastStatusRef := Some Not_found,
                        isPolling := False\<rparr>)
        in if isInitialLoading_c then st1\<lparr>isInitialLoading := False\<rparr> else st1
      else
        let st1 = st\<lparr>error := Some (failure_message e)\<rparr>
        in if isInitialLoading_c then st1\<lparr>isInitialLoading := False\<rparr> else st1)"

datatype outcome = FetchOk AssessmentResponse | FetchError fetch_failure

definition fetchAssessmentStatus_settled :: "bool \<Rightarrow> outcome \<Rightarrow> page \<Rightarrow> page" where
  "fetchAssessmentStatus_settled isInitialLoading_c out st =
     (case out of
        FetchOk response \<Rightarrow> fetchAssessmentStatus_fulfilled isInitialLoading_c response st
      | FetchError e \<Rightarrow> fetchAssessmentStatus_rejected isInitialLoading_c e st)"

section \<open>startPolling, stopPolling and the mount effect\<close>

definition startPolling :: "page \<Rightarrow> page" where
  "startPolling st =
     (if pollTimerRef st \<noteq> None then st
      else
        let (t, st1) = setInterval POLL_INTERVAL_MS (st\<lparr>isPolling := True\<rparr>)
        in st1\<lparr>pollTimerRef := Some t\<rparr>)"

definition stopPolling :: "page \<Rightarrow> page" where
  "stopPolling st = clearPollTimer (st\<lparr>isPolling := False\<rparr>)"

definition effect_mount :: "page \<Rightarrow> page" where
  "effect_mount st = startPolling (st\<lparr>isMountedRef := True\<rparr>)"

definition effect_cleanup :: "page \<Rightarrow> page" where
  "effect_cleanup st = stopPolling (st\<lparr>isMountedRef := False\<rparr>)"

text \<open>
  A registered interval that fires runs its callback, which calls
  \<^verbatim>\<open>fetchAssessmentStatus\<close>; an identifier that is not registered fires nothing.
\<close>

definition interval_fires :: "string option \<Rightarrow> nat \<Rightarrow> page \<Rightarrow> page" where
  "interval_fires uploadId t st =
     (if t \<in> set (map fst (intervals st))
      then fetchAssessmentStatus_request uploadId st else st)"

text \<open>The events of one page, and the run of a list of them from a state.\<close>

datatype event =
    Mount
  | Cleanup
  | Fires nat
  | Settled bool outcome

fun step :: "string option \<Rightarrow> event \<Rightarrow> page \<Rightarrow> page" where
  "step uploadId Mount st = effect_mount st"
| "step uploadId Cleanup st = effect_cleanup st"
| "step uploadId (Fires t) st = interval_fires uploadId t st"
| "step uploadId (Settled c out) st = fetchAssessmentStatus_settled c out st"

fun run :: "string option \<Rightarrow> event list \<Rightarrow> page \<Rightarrow> page" where
  "run uploadId [] st = st"
| "run uploadId (ev # evs) st = run uploadId evs (step uploadId ev st)"

text \<open>
  The timer discipline of the page: the window holds no interval but the one whose
  identifier is in \<^verbatim>\<open>pollTimerRef\<close>, with the fixed delay.
\<close>

definition timer_inv :: "page \<Rightarrow> bool" where
  "timer_inv st =
     (intervals st =
        (case pollTimerRef st of None \<Rightarrow> [] | Some t \<Rightarrow> [(t, POLL_INTERVAL_MS)]))"

text \<open>
  The callbacks are memoised. \<^verbatim>\<open>fetchAssessmentStatus\<close> has the dependencies
  \<^verbatim>\<open>[uploadId, isInitialLoading, shouldContinuePolling]\<close>, \<^verbatim>\<open>startPolling\<close> has
  \<^verbatim>\<open>[fetchAssessmentStatus]\<close>, and the mount effect has
  \<^verbatim>\<open>[uploadId, startPolling, stopPolling]\<close>; \<^verbatim>\<open>shouldContinuePolling\<close> and
  \<^verbatim>\<open>stopPolling\<close> have none, and \<^verbatim>\<open>uploadId\<close> is fixed for the page. So a render
  in which \<^verbatim>\<open>isInitialLoading\<close> differs from its value in the previous render hands the
  effect a new \<^verbatim>\<open>startPolling\<close>: the cleanup of the effect runs, then the effect itself
  runs again. A render with the same value leaves the effect alone.
\<close>

definition rerender :: "bool \<Rightarrow> page \<Rightarrow> page" where
  "rerender isInitialLoading_prev st =
     (if isInitialLoading st \<noteq> isInitialLoading_prev
      then effect_mount (effect_cleanup st) else st)"

text \<open>A request settles and the page renders with the state the handler has set.\<close>

definition settled_and_rendered :: "bool \<Rightarrow> outcome \<Rightarrow> page \<Rightarrow> page" where
  "settled_and_rendered isInitialLoading_c out st =
     rerender (isInitialLoading st) (fetchAssessmentStatus_settled isInitialLoading_c out st)"

section \<open>Properties of normalizeResults\<close>

lemma normalizeEntries_dom:
  "dom (normalizeEntries rs m) =
     dom m \<union> {side. side \<noteq> ''__proto__'' \<and> (\<exists>d. (side, Some d) \<in> set rs)}"
proof (induction rs arbitrary: m)
  case Nil
  then show ?case by simp
next
  case (Cons e rs)
  obtain side sideData where e: "e = (side, sideData)" by (cases e)
  show ?case
  proof (cases sideData)
    case None
    with e Cons.IH [of m] show ?thesis by auto
  next
    case (Some d)
    show ?thesis
    proof (cases "side = ''__proto__''")
      case True
      with e Some Cons.IH [of m] show ?thesis by auto
    next
      case False
      with e Some Cons.IH show ?thesis by (auto split: if_splits)
    qed
  qed
qed

lemma normalizeEntries_other:
  "side \<notin> fst ` set rs \<Longrightarrow> normalizeEntries rs m side = m side"
proof (induction rs arbitrary: m)
  case Nil
  then show ?case by simp
next
  case (Cons e rs)
  obtain k sideData where e: "e = (k, sideData)" by (cases e)
  with Cons show ?case by (cases sideData) auto
qed

lemma normalizeEntries_proto:
  "normalizeEntries rs m ''__proto__'' = m ''__proto__''"
proof (induction rs arbitrary: m)
  case Nil
  then show ?case by simp
next
  case (Cons e rs)
  obtain k sideData where e: "e = (k, sideData)" by (cases e)
  with Cons show ?case by (cases sideData) auto
qed

lemma normalizeEntries_present:
  "distinct (map fst rs) \<Longrightarrow> (side, Some d) \<in> set rs \<Longrightarrow> side \<noteq> ''__proto__'' \<Longrightarrow>
   normalizeEntries rs m side =
     Some \<lparr>pickupUrl = pickup_image d,
           resultUrl = nullish (annotated_return_image d) (return_image d)\<rparr>"
proof (induction rs arbitrary: m)
  case Nil
  then show ?case by simp
next
  case (Cons e rs)
  obtain k sideData where e: "e = (k, sideData)" by (cases e)
  show ?case
  proof (cases "(side, Some d) \<in> set rs")
    case True
    with Cons e show ?thesis by (cases sideData) auto
  next
    case False
    with Cons.prems e have here: "k = side" "sideData = Some d" by auto
    from Cons.prems e here have "side \<notin> fst ` set rs" by auto
    then show ?thesis using e here Cons.prems(3) by (simp add: normalizeEntries_other)
  qed
qed

text \<open>
  C5, as the code has it. For a raw mapping with one entry per key (as every JavaScript
  object has) and a side other than \<^verbatim>\<open>__proto__\<close> whose entry is present, the output
  entry of that side has \<^verbatim>\<open>pickupUrl\<close> equal to \<^verbatim>\<open>pickup_image\<close>, and
  \<^verbatim>\<open>resultUrl\<close> equal to \<^verbatim>\<open>annotated_return_image\<close> whenever that field is present,
  the empty string included; only an absent (null or undefined) annotated image falls back
  to \<^verbatim>\<open>return_image\<close>.
\<close>

theorem normalizeResults_prefers_present_annotated:
  assumes "distinct (map fst rs)" and "(side, Some d) \<in> set rs" and "side \<noteq> ''__proto__''"
  shows "normalizeResults (Some rs) side =
           Some \<lparr>pickupUrl = pickup_image d,
                 resultUrl = (case annotated_return_image d of
                                Some a \<Rightarrow> Some a
                              | None \<Rightarrow> return_image d)\<rparr>"
  using normalizeEntries_present [OF assms, of Map.empty]
  by (simp add: normalizeResults_def nullish_def)

theorem normalizeResults_prefers_present_annotated_witness:
  "normalizeResults
     (Some [(''front'', Some \<lparr>pickup_image = Some ''p.jpg'', return_image = Some ''r.jpg'',
                              annotated_return_image = Some ''a.jpg''\<rparr>),
            (''rear'', Some \<lparr>pickup_image = Some ''p2.jpg'', return_image = Some ''r2.jpg'',
                             annotated_return_image = None\<rparr>)]) ''front'' =
     Some \<lparr>pickupUrl = Some ''p.jpg'', resultUrl = Some ''a.jpg''\<rparr>"
  using normalizeResults_prefers_present_annotated
    [of "[(''front'', Some \<lparr>pickup_image = Some ''p.jpg'', return_image = Some ''r.jpg'',
                              annotated_return_image = Some ''a.jpg''\<rparr>),
          (''rear'', Some \<lparr>pickup_image = Some ''p2.jpg'', return_image = Some ''r2.jpg'',
                           annotated_return_image = None\<rparr>)]" "''front''"
        "\<lparr>pickup_image = Some ''p.jpg'', return_image = Some ''r.jpg'',
          annotated_return_image = Some ''a.jpg''\<rparr>"]
  by simp

text \<open>
  C5 as stated fails: with an annotated image that is the empty string, the output's
  \<^verbatim>\<open>resultUrl\<close> is that empty string, not the return image.
\<close>

theorem normalizeResults_empty_annotated_counterexample:
  "normalizeResults
     (Some [(''front'', Some \<lparr>pickup_image = Some ''p.jpg'', return_image = Some ''r.jpg'',
                              annotated_return_image = Some ''''\<rparr>)]) ''front'' =
     Some \<lparr>pickupUrl = Some ''p.jpg'', resultUrl = Some ''''\<rparr>
   \<and> normalizeResults
     (Some [(''front'', Some \<lparr>pickup_image = Some ''p.jpg'', return_image = Some ''r.jpg'',
                              annotated_return_image = Some ''''\<rparr>)]) ''front'' \<noteq>
     Some \<lparr>pickupUrl = Some ''p.jpg'', resultUrl = Some ''r.jpg''\<rparr>"
  by (simp add: normalizeResults_def nullish_def)

text \<open>
  C9, as the code has it. A side other than \<^verbatim>\<open>__proto__\<close> is in the output exactly
  when its entry is present (not null or undefined), whatever image references that entry
  holds or lacks; a null mapping gives the empty output. For a raw mapping with one entry
  per key, the output entry of such a side carries the pickup reference of the raw entry
  as it is, absent when it is absent, and the annotated reference when that is present,
  else the return reference as it is, absent when it is absent. The function has no
  failing branch.
\<close>

theorem normalizeResults_keeps_every_present_entry:
  assumes "side \<noteq> ''__proto__''"
  shows "(side \<in> dom (normalizeResults (Some rs))) = (\<exists>d. (side, Some d) \<in> set rs)
       \<and> normalizeResults None = Map.empty
       \<and> (distinct (map fst rs) \<and> (side, Some d) \<in> set rs \<longrightarrow>
            normalizeResults (Some rs) side =
              Some \<lparr>pickupUrl = pickup_image d,
                    resultUrl = (case annotated_return_image d of
                                   Some a \<Rightarrow> Some a
                                 | None \<Rightarrow> return_image d)\<rparr>)"
proof -
  have "(side \<in> dom (normalizeResults (Some rs))) = (\<exists>d. (side, Some d) \<in> set rs)"
    using assms by (simp add: normalizeResults_def normalizeEntries_dom)
  moreover have "normalizeResults None = Map.empty"
    by (simp add: normalizeResults_def)
  moreover have "distinct (map fst rs) \<and> (side, Some d) \<in> set rs \<longrightarrow>
        normalizeResults (Some rs) side =
          Some \<lparr>pickupUrl = pickup_image d,
                resultUrl = (case annotated_return_image d of
                               Some a \<Rightarrow> Some a
                             | None \<Rightarrow> return_image d)\<rparr>"
    using assms normalizeEntries_present [of rs side d Map.empty]
    by (simp add: normalizeResults_def nullish_def)
  ultimately show ?thesis by blast
qed

theorem normalizeResults_keeps_every_present_entry_witness:
  "''left'' \<noteq> ''__proto__''
   \<and> distinct (map fst
     [(''left'', Some \<lparr>pickup_image = Some ''p.jpg'', return_image = None,
                        annotated_return_image = None\<rparr>),
      (''right'', None)])
   \<and> ''left'' \<in> dom (normalizeResults
       (Some [(''left'', Some \<lparr>pickup_image = Some ''p.jpg'', return_image = None,
                                annotated_return_image = None\<rparr>),
              (''right'', None)]))
   \<and> normalizeResults
       (Some [(''left'', Some \<lparr>pickup_image = Some ''p.jpg'', return_image = None,
                                annotated_return_image = None\<rparr>),
              (''right'', None)]) ''left'' =
       Some \<lparr>pickupUrl = Some ''p.jpg'', resultUrl = None\<rparr>"
proof -
  have h: "''left'' \<noteq> ''__proto__''" by simp
  show ?thesis
    using normalizeResults_keeps_every_present_entry
      [OF h, of "[(''left'', Some \<lparr>pickup_image = Some ''p.jpg'', return_image = None,
                                annotated_return_image = None\<rparr>),
            (''right'', None)]"
          "\<lparr>pickup_image = Some ''p.jpg'', return_image = None,
            annotated_return_image = None\<rparr>"]
    by auto
qed

text \<open>
  C9 as stated fails: an entry without a pickup image is not omitted, it yields an output
  entry whose \<^verbatim>\<open>pickupUrl\<close> is absent.
\<close>

theorem normalizeResults_missing_pickup_counterexample:
  "normalizeResults
     (Some [(''front'', Some \<lparr>pickup_image = None, return_image = Some ''r.jpg'',
                              annotated_return_image = None\<rparr>)]) ''front'' =
     Some \<lparr>pickupUrl = None, resultUrl = Some ''r.jpg''\<rparr>"
  by (simp add: normalizeResults_def nullish_def)

section \<open>The timer discipline\<close>

lemma clearPollTimer_simps:
  "status (clearPollTimer st) = status st"
  "results (clearPollTimer st) = results st"
  "summary (clearPollTimer st) = summary st"
  "isPolling (clearPollTimer st) = isPolling st"
  "error (clearPollTimer st) = error st"
  "isInitialLoading (clearPollTimer st) = isInitialLoading st"
  "lastStatusRef (clearPollTimer st) = lastStatusRef st"
  "pollTimerRef (clearPollTimer st) = None"
  "isMountedRef (clearPollTimer st) = isMountedRef st"
  "nextIntervalId (clearPollTimer st) = nextIntervalId st"
  "requests (clearPollTimer st) = requests st"
  "intervals (clearPollTimer st) =
     (case pollTimerRef st of
        None \<Rightarrow> intervals st
      | Some t \<Rightarrow> filter (\<lambda>e. fst e \<noteq> t) (intervals st))"
  by (simp_all add: clearPollTimer_def clearInterval_def split: option.splits)

lemma clearPollTimer_inv: "timer_inv st \<Longrightarrow> intervals (clearPollTimer st) = []"
  by (simp add: clearPollTimer_simps timer_inv_def split: option.splits)

lemma timer_inv_clearPollTimer: "timer_inv st \<Longrightarrow> timer_inv (clearPollTimer st)"
  by (simp add: clearPollTimer_simps timer_inv_def split: option.splits)

lemma timer_inv_startPolling: "timer_inv st \<Longrightarrow> timer_inv (startPolling st)"
  by (auto simp: startPolling_def setInterval_def timer_inv_def Let_def split: option.splits)

lemma timer_inv_stopPolling: "timer_inv st \<Longrightarrow> timer_inv (stopPolling st)"
  unfolding stopPolling_def
  by (rule timer_inv_clearPollTimer) (simp add: timer_inv_def)

lemma fulfilled_pollTimerRef:
  "pollTimerRef (fetchAssessmentStatus_fulfilled c r st) =
     (if isMountedRef st \<and> \<not> shouldContinuePolling (Some (data_status r))
      then None else pollTimerRef st)"
  by (simp add: fetchAssessmentStatus_fulfilled_def Let_def clearPollTimer_simps
           split: option.splits)

lemma fulfilled_intervals:
  "intervals (fetchAssessmentStatus_fulfilled c r st) =
     (if isMountedRef st \<and> \<not> shouldContinuePolling (Some (data_status r))
      then intervals (clearPollTimer st) else intervals st)"
  by (simp add: fetchAssessmentStatus_fulfilled_def Let_def clearPollTimer_simps
           split: option.splits)

lemma rejected_pollTimerRef:
  "pollTimerRef (fetchAssessmentStatus_rejected c e st) =
     (if isMountedRef st \<and> is_404 e then None else pollTimerRef st)"
  by (simp add: fetchAssessmentStatus_rejected_def Let_def clearPollTimer_simps)

lemma rejected_intervals:
  "intervals (fetchAssessmentStatus_rejected c e st) =
     (if isMountedRef st \<and> is_404 e then intervals (clearPollTimer st) else intervals st)"
  by (simp add: fetchAssessmentStatus_rejected_def Let_def clearPollTimer_simps
           split: option.splits)

lemma timer_inv_fulfilled:
  "timer_inv st \<Longrightarrow> timer_inv (fetchAssessmentStatus_fulfilled c r st)"
  by (simp add: timer_inv_def fulfilled_pollTimerRef fulfilled_intervals clearPollTimer_simps
           split: option.splits)

lemma timer_inv_rejected:
  "timer_inv st \<Longrightarrow> timer_inv (fetchAssessmentStatus_rejected c e st)"
  by (simp add: timer_inv_def rejected_pollTimerRef rejected_intervals clearPollTimer_simps
           split: option.splits)

lemma timer_inv_step: "timer_inv st \<Longrightarrow> timer_inv (step uploadId ev st)"
proof (cases ev)
  case Mount
  assume "timer_inv st"
  then have "timer_inv (st\<lparr>isMountedRef := True\<rparr>)" by (simp add: timer_inv_def)
  with Mount show ?thesis by (simp add: effect_mount_def timer_inv_startPolling)
next
  case Cleanup
  assume "timer_inv st"
  then have "timer_inv (st\<lparr>isMountedRef := False\<rparr>)" by (simp add: timer_inv_def)
  with Cleanup show ?thesis by (simp add: effect_cleanup_def timer_inv_stopPolling)
next
  case (Fires t)
  assume "timer_inv st"
  with Fires show ?thesis
    by (simp add: interval_fires_def fetchAssessmentStatus_request_def timer_inv_def)
next
  case (Settled c out)
  assume "timer_inv st"
  with Settled show ?thesis
    by (cases out)
       (simp_all add: fetchAssessmentStatus_settled_def timer_inv_fulfilled timer_inv_rejected)
qed

lemma timer_inv_run: "timer_inv st \<Longrightarrow> timer_inv (run uploadId evs st)"
  by (induction evs arbitrary: st) (simp_all add: timer_inv_step)

lemma timer_inv_initial: "timer_inv initial_page"
  by (simp add: timer_inv_def initial_page_def)

lemma timer_inv_reachable: "timer_inv (run uploadId evs initial_page)"
  by (rule timer_inv_run) (rule timer_inv_initial)

lemma terminal_statuses:
  "(\<not> shouldContinuePolling (Some s)) = (s = Complete \<or> s = Failed \<or> s = Not_found)"
  by (cases s) (simp_all add: shouldContinuePolling_def)

section \<open>Facts about a settled request\<close>

lemma settled_unmounted:
  "\<not> isMountedRef st \<Longrightarrow> fetchAssessmentStatus_settled c out st = st"
  by (cases out)
     (simp_all add: fetchAssessmentStatus_settled_def fetchAssessmentStatus_fulfilled_def
        fetchAssessmentStatus_rejected_def)

lemma cleanup_fields:
  "isMountedRef (effect_cleanup st) = False"
  "pollTimerRef (effect_cleanup st) = None"
  "isPolling (effect_cleanup st) = False"
  by (simp_all add: effect_cleanup_def stopPolling_def clearPollTimer_simps)

lemma cleanup_intervals: "timer_inv st \<Longrightarrow> intervals (effect_cleanup st) = []"
  unfolding effect_cleanup_def stopPolling_def
  by (rule clearPollTimer_inv) (simp add: timer_inv_def)

lemma detached_step:
  assumes "\<not> isMountedRef st" "pollTimerRef st = None" "\<not> isPolling st" "intervals st = []"
    and "ev \<noteq> Mount"
  shows "step uploadId ev st = st"
proof (cases ev)
  case Mount
  with assms show ?thesis by simp
next
  case Cleanup
  with assms show ?thesis
    by (simp add: effect_cleanup_def stopPolling_def clearPollTimer_def)
next
  case (Fires t)
  with assms show ?thesis by (simp add: interval_fires_def)
next
  case (Settled c out)
  with assms show ?thesis by (simp add: settled_unmounted)
qed

lemma detached_run:
  assumes "\<not> isMountedRef st" "pollTimerRef st = None" "\<not> isPolling st" "intervals st = []"
    and "Mount \<notin> set evs"
  shows "run uploadId evs st = st"
  using assms(5)
proof (induction evs)
  case Nil
  then show ?case by simp
next
  case (Cons ev evs)
  then have "step uploadId ev st = st"
    using assms(1-4) by (intro detached_step) auto
  with Cons show ?case by simp
qed

lemma fulfilled_gate_open:
  assumes "isMountedRef st" and "Some (data_status r) \<noteq> lastStatusRef st \<or> c"
  shows "results (fetchAssessmentStatus_fulfilled c r st) =
           (case data_results r of
              None \<Rightarrow> results st
            | Some rs \<Rightarrow> normalizeResults (Some rs))"
    and "summary (fetchAssessmentStatus_fulfilled c r st) =
           (if truthy (data_summary r) then data_summary r else summary st)"
    and "status (fetchAssessmentStatus_fulfilled c r st) = Some (data_status r)"
    and "lastStatusRef (fetchAssessmentStatus_fulfilled c r st) = Some (data_status r)"
    and "error (fetchAssessmentStatus_fulfilled c r st) = None"
  using assms
  by (simp_all add: fetchAssessmentStatus_fulfilled_def Let_def clearPollTimer_simps
        split: option.splits)

lemma fulfilled_gate_closed:
  assumes "Some (data_status r) = lastStatusRef st" and "\<not> c"
  shows "results (fetchAssessmentStatus_fulfilled c r st) = results st"
    and "summary (fetchAssessmentStatus_fulfilled c r st) = summary st"
    and "status (fetchAssessmentStatus_fulfilled c r st) = status st"
    and "lastStatusRef (fetchAssessmentStatus_fulfilled c r st) = lastStatusRef st"
    and "error (fetchAssessmentStatus_fulfilled c r st) = error st"
  using assms
  by (simp_all add: fetchAssessmentStatus_fulfilled_def Let_def clearPollTimer_simps)

lemma fulfilled_unmounted:
  "\<not> isMountedRef st \<Longrightarrow> fetchAssessmentStatus_fulfilled c r st = st"
  by (simp add: fetchAssessmentStatus_fulfilled_def)

lemma same_status_sequence:
  assumes "lastStatusRef st = Some s" and "\<forall>r \<in> set rs. data_status r = s"
  shows "results (run uploadId (map (\<lambda>r. Settled False (FetchOk r)) rs) st) = results st
       \<and> summary (run uploadId (map (\<lambda>r. Settled False (FetchOk r)) rs) st) = summary st"
  using assms
proof (induction rs arbitrary: st)
  case Nil
  then show ?case by simp
next
  case (Cons r rs)
  let ?st = "fetchAssessmentStatus_fulfilled False r st"
  from Cons.prems have same: "Some (data_status r) = lastStatusRef st" by simp
  have "lastStatusRef ?st = Some s"
    using fulfilled_gate_closed(4) [OF same, of False] Cons.prems by simp
  moreover from Cons.prems have "\<forall>r \<in> set rs. data_status r = s" by simp
  ultimately have
    "results (run uploadId (map (\<lambda>r. Settled False (FetchOk r)) rs) ?st) = results ?st
     \<and> summary (run uploadId (map (\<lambda>r. Settled False (FetchOk r)) rs) ?st) = summary ?st"
    by (rule Cons.IH)
  then show ?case
    using fulfilled_gate_closed(1,2) [OF same, of False]
    by (simp add: fetchAssessmentStatus_settled_def)
qed

lemmas page_defs =
  initial_page_def effect_mount_def effect_cleanup_def startPolling_def stopPolling_def
  setInterval_def clearInterval_def clearPollTimer_def POLL_INTERVAL_MS_def
  interval_fires_def fetchAssessmentStatus_request_def fetchAssessmentStatus_settled_def
  fetchAssessmentStatus_fulfilled_def fetchAssessmentStatus_rejected_def
  shouldContinuePolling_def truthy_def is_404_def failure_message_def or_else_def nullish_def
  normalizeResults_def timer_inv_def Let_def

section \<open>Successful fetches\<close>

text \<open>
  C1, as the code has it. While the page is mounted, a successful fetch touches
  \<^verbatim>\<open>results\<close> and \<^verbatim>\<open>summary\<close> only when the gate is open, that is when the fetched
  status differs from the status last committed or the callback was created during the
  initial load. Then a non-null raw result mapping is normalized and replaces the stored
  results as a whole, and a non-empty summary replaces the stored one. With the gate closed
  both stay as they are. A summary that is set never becomes empty again, and any sequence
  of successful fetches that report the committed status, handled after the initial load,
  leaves results and summary exactly as they were.
\<close>

theorem fetch_ok_stores_results_through_gate:
  assumes "isMountedRef st"
  shows "(Some (data_status r) \<noteq> lastStatusRef st \<or> c \<longrightarrow>
            results (fetchAssessmentStatus_fulfilled c r st) =
              (case data_results r of
                 None \<Rightarrow> results st
               | Some rs \<Rightarrow> normalizeResults (Some rs))
          \<and> summary (fetchAssessmentStatus_fulfilled c r st) =
              (if truthy (data_summary r) then data_summary r else summary st))
       \<and> (Some (data_status r) = lastStatusRef st \<and> \<not> c \<longrightarrow>
            results (fetchAssessmentStatus_fulfilled c r st) = results st
          \<and> summary (fetchAssessmentStatus_fulfilled c r st) = summary st)
       \<and> (truthy (summary st) \<longrightarrow> truthy (summary (fetchAssessmentStatus_fulfilled c r st)))
       \<and> (lastStatusRef st = Some s \<and> (\<forall>r \<in> set rs. data_status r = s) \<longrightarrow>
            results (run uploadId (map (\<lambda>r. Settled False (FetchOk r)) rs) st) = results st
          \<and> summary (run uploadId (map (\<lambda>r. Settled False (FetchOk r)) rs) st) = summary st)"
proof -
  have "truthy (summary st) \<longrightarrow> truthy (summary (fetchAssessmentStatus_fulfilled c r st))"
  proof (cases "Some (data_status r) \<noteq> lastStatusRef st \<or> c")
    case True
    then show ?thesis using fulfilled_gate_open(2) [OF assms True] by simp
  next
    case False
    then show ?thesis using fulfilled_gate_closed(2) [of r st c] by simp
  qed
  then show ?thesis
    using fulfilled_gate_open(1,2) [OF assms, of r c] fulfilled_gate_closed(1,2) [of r st c]
      same_status_sequence [of st s rs uploadId]
    by blast
qed

theorem fetch_ok_stores_results_through_gate_witness:
  "isMountedRef (effect_mount initial_page)
   \<and> results (fetchAssessmentStatus_fulfilled True
        \<lparr>data_status = Complete,
          data_results = Some [(''front'', Some \<lparr>pickup_image = Some ''p.jpg'',
              return_image = Some ''r.jpg'', annotated_return_image = Some ''a.jpg''\<rparr>)],
          data_summary = Some ''One new dent''\<rparr>
        (effect_mount initial_page)) ''front'' =
       Some \<lparr>pickupUrl = Some ''p.jpg'', resultUrl = Some ''a.jpg''\<rparr>
   \<and> summary (fetchAssessmentStatus_fulfilled True
        \<lparr>data_status = Complete,
          data_results = Some [(''front'', Some \<lparr>pickup_image = Some ''p.jpg'',
              return_image = Some ''r.jpg'', annotated_return_image = Some ''a.jpg''\<rparr>)],
          data_summary = Some ''One new dent''\<rparr>
        (effect_mount initial_page)) = Some ''One new dent''"
proof -
  have h: "isMountedRef (effect_mount initial_page)"
    by (simp add: page_defs)
  show ?thesis
    using h fetch_ok_stores_results_through_gate [OF h,
      where r = "\<lparr>data_status = Complete,
          data_results = Some [(''front'', Some \<lparr>pickup_image = Some ''p.jpg'',
              return_image = Some ''r.jpg'', annotated_return_image = Some ''a.jpg''\<rparr>)],
          data_summary = Some ''One new dent''\<rparr>" and c = True and s = Complete
        and rs = "[]" and uploadId = None]
    by (simp add: normalizeResults_def nullish_def truthy_def)
qed

text \<open>
  C1 as stated fails: after \<^verbatim>\<open>in_progress\<close> has been committed, a second successful
  fetch with the same status that carries a result for the front side and a summary
  stores neither.
\<close>

theorem same_status_results_dropped_counterexample:
  "results (run (Some ''job'')
       [Mount, Fires 1,
        Settled True (FetchOk \<lparr>data_status = In_progress, data_results = None,
                                data_summary = None\<rparr>),
        Cleanup, Mount, Fires 2,
        Settled False (FetchOk \<lparr>data_status = In_progress,
           data_results = Some [(''front'', Some \<lparr>pickup_image = Some ''p.jpg'',
               return_image = Some ''r.jpg'', annotated_return_image = None\<rparr>)],
           data_summary = Some ''One new dent''\<rparr>)]
       initial_page) ''front'' = None
   \<and> summary (run (Some ''job'')
       [Mount, Fires 1,
        Settled True (FetchOk \<lparr>data_status = In_progress, data_results = None,
                                data_summary = None\<rparr>),
        Cleanup, Mount, Fires 2,
        Settled False (FetchOk \<lparr>data_status = In_progress,
           data_results = Some [(''front'', Some \<lparr>pickup_image = Some ''p.jpg'',
               return_image = Some ''r.jpg'', annotated_return_image = None\<rparr>)],
           data_summary = Some ''One new dent''\<rparr>)]
       initial_page) = None"
  by (simp add: page_defs)

text \<open>
  C4 at a concrete run: a transient failure records an error, and the next successful
  fetch, which reports the status already committed, leaves that error in place. The
  statement \<^verbatim>\<open>setError(null)\<close> sits inside the gate on a changed status.
\<close>

theorem same_status_fetch_keeps_error:
  "error (run (Some ''job'')
       [Mount, Fires 1,
        Settled True (FetchOk \<lparr>data_status = In_progress, data_results = None,
                                data_summary = None\<rparr>),
        Cleanup, Mount, Fires 2,
        Settled False (FetchError (AxiosError None None None (Some ''Network Error''))),
        Fires 2,
        Settled False (FetchOk \<lparr>data_status = In_progress, data_results = None,
                                 data_summary = None\<rparr>)]
       initial_page) = Some ''Network Error''"
  by (simp add: page_defs)

section \<open>Terminal statuses\<close>

text \<open>
  C3, as the code has it. In a state whose committed status is terminal, a settled
  request never arms a timer, never sets the polling flag and issues no request; the
  status stays as it is when the request succeeds with that same status, when it fails
  with anything but a 404, and when the page is unmounted. A success that reports another
  status replaces the committed status with it, and a 404 replaces it with
  \<^verbatim>\<open>not_found\<close>.
\<close>

theorem terminal_status_after_later_outcomes:
  assumes "status st = Some s" and "lastStatusRef st = Some s"
    and "\<not> shouldContinuePolling (Some s)"
  shows "set (intervals (fetchAssessmentStatus_settled c out st)) \<subseteq> set (intervals st)
       \<and> (pollTimerRef (fetchAssessmentStatus_settled c out st) = None
            \<or> pollTimerRef (fetchAssessmentStatus_settled c out st) = pollTimerRef st)
       \<and> (isPolling (fetchAssessmentStatus_settled c out st) \<longrightarrow> isPolling st)
       \<and> requests (fetchAssessmentStatus_settled c out st) = requests st
       \<and> (\<forall>r. out = FetchOk r \<and> data_status r = s \<longrightarrow>
              status (fetchAssessmentStatus_settled c out st) = Some s
            \<and> lastStatusRef (fetchAssessmentStatus_settled c out st) = Some s)
       \<and> (\<forall>e. out = FetchError e \<and> \<not> is_404 e \<longrightarrow>
              status (fetchAssessmentStatus_settled c out st) = Some s
            \<and> lastStatusRef (fetchAssessmentStatus_settled c out st) = Some s)
       \<and> (\<not> isMountedRef st \<longrightarrow> fetchAssessmentStatus_settled c out st = st)
       \<and> (\<forall>r. isMountedRef st \<and> out = FetchOk r \<and> data_status r \<noteq> s \<longrightarrow>
              status (fetchAssessmentStatus_settled c out st) = Some (data_status r))
       \<and> (\<forall>e. isMountedRef st \<and> out = FetchError e \<and> is_404 e \<longrightarrow>
              status (fetchAssessmentStatus_settled c out st) = Some Not_found)"
proof (cases out)
  case (FetchOk r)
  have eq: "fetchAssessmentStatus_settled c out st = fetchAssessmentStatus_fulfilled c r st"
    using FetchOk by (simp add: fetchAssessmentStatus_settled_def)
  have a: "set (intervals (fetchAssessmentStatus_fulfilled c r st)) \<subseteq> set (intervals st)"
    by (auto simp: fulfilled_intervals clearPollTimer_simps split: option.splits)
  have b: "pollTimerRef (fetchAssessmentStatus_fulfilled c r st) = None
            \<or> pollTimerRef (fetchAssessmentStatus_fulfilled c r st) = pollTimerRef st"
    by (simp add: fulfilled_pollTimerRef)
  have c: "isPolling (fetchAssessmentStatus_fulfilled c r st) \<longrightarrow> isPolling st"
    by (simp add: fetchAssessmentStatus_fulfilled_def Let_def clearPollTimer_simps
          split: option.splits)
  have d: "requests (fetchAssessmentStatus_fulfilled c r st) = requests st"
    by (simp add: fetchAssessmentStatus_fulfilled_def Let_def clearPollTimer_simps
          split: option.splits)
  have e: "data_status r = s \<longrightarrow>
              status (fetchAssessmentStatus_fulfilled c r st) = Some s
            \<and> lastStatusRef (fetchAssessmentStatus_fulfilled c r st) = Some s"
    using assms(1,2)
    by (simp add: fetchAssessmentStatus_fulfilled_def Let_def clearPollTimer_simps
          split: option.splits)
  have f: "isMountedRef st \<and> data_status r \<noteq> s \<longrightarrow>
              status (fetchAssessmentStatus_fulfilled c r st) = Some (data_status r)"
    using assms(2) fulfilled_gate_open(3) [of st r c] by auto
  show ?thesis
    unfolding eq using FetchOk a b c d e f by (simp add: fulfilled_unmounted)
next
  case (FetchError e)
  have eq: "fetchAssessmentStatus_settled c out st = fetchAssessmentStatus_rejected c e st"
    using FetchError by (simp add: fetchAssessmentStatus_settled_def)
  have a: "set (intervals (fetchAssessmentStatus_rejected c e st)) \<subseteq> set (intervals st)"
    by (auto simp: rejected_intervals clearPollTimer_simps split: option.splits)
  have b: "pollTimerRef (fetchAssessmentStatus_rejected c e st) = None
            \<or> pollTimerRef (fetchAssessmentStatus_rejected c e st) = pollTimerRef st"
    by (simp add: rejected_pollTimerRef)
  have c: "isPolling (fetchAssessmentStatus_rejected c e st) \<longrightarrow> isPolling st"
    by (simp add: fetchAssessmentStatus_rejected_def Let_def clearPollTimer_simps)
  have d: "requests (fetchAssessmentStatus_rejected c e st) = requests st"
    by (simp add: fetchAssessmentStatus_rejected_def Let_def clearPollTimer_simps)
  have f: "\<not> is_404 e \<longrightarrow>
              status (fetchAssessmentStatus_rejected c e st) = Some s
            \<and> lastStatusRef (fetchAssessmentStatus_rejected c e st) = Some s"
    using assms(1,2) by (simp add: fetchAssessmentStatus_rejected_def Let_def)
  have g: "isMountedRef st \<and> is_404 e \<longrightarrow>
              status (fetchAssessmentStatus_rejected c e st) = Some Not_found"
    by (simp add: fetchAssessmentStatus_rejected_def Let_def clearPollTimer_simps)
  have h: "\<not> isMountedRef st \<longrightarrow> fetchAssessmentStatus_rejected c e st = st"
    by (simp add: fetchAssessmentStatus_rejected_def)
  show ?thesis
    unfolding eq using FetchError a b c d f g h by simp
qed

theorem terminal_status_after_later_outcomes_witness:
  "status (run (Some ''job'')
       [Mount, Fires 1,
        Settled True (FetchOk \<lparr>data_status = Failed, data_results = None,
                                data_summary = None\<rparr>)] initial_page) = Some Failed
   \<and> \<not> shouldContinuePolling (Some Failed)
   \<and> status (fetchAssessmentStatus_settled False
        (FetchError (AxiosError (Some 503) None None (Some ''Request failed'')))
        (run (Some ''job'')
          [Mount, Fires 1,
           Settled True (FetchOk \<lparr>data_status = Failed, data_results = None,
                                   data_summary = None\<rparr>)] initial_page)) = Some Failed
   \<and> pollTimerRef (fetchAssessmentStatus_settled False
        (FetchError (AxiosError (Some 503) None None (Some ''Request failed'')))
        (run (Some ''job'')
          [Mount, Fires 1,
           Settled True (FetchOk \<lparr>data_status = Failed, data_results = None,
                                   data_summary = None\<rparr>)] initial_page)) = None"
proof -
  let ?st = "run (Some ''job'')
       [Mount, Fires 1,
        Settled True (FetchOk \<lparr>data_status = Failed, data_results = None,
                                data_summary = None\<rparr>)] initial_page"
  have h1: "status ?st = Some Failed" by (simp add: page_defs)
  have h2: "lastStatusRef ?st = Some Failed" by (simp add: page_defs)
  have h3: "\<not> shouldContinuePolling (Some Failed)" by (simp add: shouldContinuePolling_def)
  have h4: "pollTimerRef ?st = None" by (simp add: page_defs)
  show ?thesis
    using h1 h3 h4 terminal_status_after_later_outcomes [OF h1 h2 h3,
      where c = False
        and out = "FetchError (AxiosError (Some 503) None None (Some ''Request failed''))"]
    by (simp add: is_404_def)
qed

text \<open>
  C3 as stated fails: two requests are in flight, the first to settle commits
  \<^verbatim>\<open>complete\<close>, and the second, which reports \<^verbatim>\<open>pending\<close>, then replaces it.
\<close>

theorem terminal_status_overwritten_counterexample:
  "status (run (Some ''job'')
       [Mount, Fires 1, Fires 1,
        Settled True (FetchOk \<lparr>data_status = Complete, data_results = None,
                                data_summary = None\<rparr>),
        Cleanup, Mount]
       initial_page) = Some Complete
   \<and> status (run (Some ''job'')
       [Mount, Fires 1, Fires 1,
        Settled True (FetchOk \<lparr>data_status = Complete, data_results = None,
                                data_summary = None\<rparr>),
        Cleanup, Mount,
        Settled True (FetchOk \<lparr>data_status = Pending, data_results = None,
                                data_summary = None\<rparr>)]
       initial_page) = Some Pending"
  by (simp add: page_defs)

section \<open>Failed fetches\<close>

lemma rejected_404_handler_state:
  assumes "isMountedRef st" and "is_404 e"
  shows "status (fetchAssessmentStatus_rejected c e st) = Some Not_found"
    and "lastStatusRef (fetchAssessmentStatus_rejected c e st) = Some Not_found"
    and "\<not> isPolling (fetchAssessmentStatus_rejected c e st)"
    and "pollTimerRef (fetchAssessmentStatus_rejected c e st) = None"
    and "timer_inv st \<Longrightarrow> intervals (fetchAssessmentStatus_rejected c e st) = []"
proof -
  show "status (fetchAssessmentStatus_rejected c e st) = Some Not_found"
       "lastStatusRef (fetchAssessmentStatus_rejected c e st) = Some Not_found"
       "\<not> isPolling (fetchAssessmentStatus_rejected c e st)"
    using assms by (simp_all add: fetchAssessmentStatus_rejected_def Let_def clearPollTimer_simps)
  show "pollTimerRef (fetchAssessmentStatus_rejected c e st) = None"
    using assms by (simp add: rejected_pollTimerRef)
  show "timer_inv st \<Longrightarrow> intervals (fetchAssessmentStatus_rejected c e st) = []"
    using assms by (simp add: rejected_intervals clearPollTimer_inv)
qed

lemma first_load_404_rearms:
  assumes "isMountedRef st" and "isInitialLoading st" and "is_404 e"
  shows "pollTimerRef (settled_and_rendered True (FetchError e) st) = Some (nextIntervalId st)"
    and "isPolling (settled_and_rendered True (FetchError e) st)"
    and "status (settled_and_rendered True (FetchError e) st) = Some Not_found"
  using assms
  by (simp_all add: settled_and_rendered_def rerender_def fetchAssessmentStatus_settled_def
        fetchAssessmentStatus_rejected_def Let_def effect_mount_def effect_cleanup_def
        stopPolling_def startPolling_def setInterval_def clearPollTimer_def clearInterval_def
        split: option.splits)

text \<open>
  C6 at the first response of a page: the request that the first firing of the interval
  issued is answered with a 404. The handler sets the status to \<^verbatim>\<open>not_found\<close>, clears
  the polling flag and the timer and removes the interval; it also clears
  \<^verbatim>\<open>isInitialLoading\<close>, so the next render runs the mount effect again, and
  \<^verbatim>\<open>startPolling\<close> sets the polling flag and registers a new interval of 5000 ms, whose
  next firing issues a second request. Polling is not halted.
\<close>

theorem first_load_404_polling_goes_on:
  "status (fetchAssessmentStatus_settled True
       (FetchError (AxiosError (Some 404) (Some ''Not Found'') None
          (Some ''Request failed with status code 404'')))
       (run (Some ''job'') [Mount, Fires 1] initial_page)) = Some Not_found
   \<and> pollTimerRef (fetchAssessmentStatus_settled True
       (FetchError (AxiosError (Some 404) (Some ''Not Found'') None
          (Some ''Request failed with status code 404'')))
       (run (Some ''job'') [Mount, Fires 1] initial_page)) = None
   \<and> status (settled_and_rendered True
       (FetchError (AxiosError (Some 404) (Some ''Not Found'') None
          (Some ''Request failed with status code 404'')))
       (run (Some ''job'') [Mount, Fires 1] initial_page)) = Some Not_found
   \<and> isPolling (settled_and_rendered True
       (FetchError (AxiosError (Some 404) (Some ''Not Found'') None
          (Some ''Request failed with status code 404'')))
       (run (Some ''job'') [Mount, Fires 1] initial_page))
   \<and> pollTimerRef (settled_and_rendered True
       (FetchError (AxiosError (Some 404) (Some ''Not Found'') None
          (Some ''Request failed with status code 404'')))
       (run (Some ''job'') [Mount, Fires 1] initial_page)) = Some 2
   \<and> intervals (settled_and_rendered True
       (FetchError (AxiosError (Some 404) (Some ''Not Found'') None
          (Some ''Request failed with status code 404'')))
       (run (Some ''job'') [Mount, Fires 1] initial_page)) = [(2, 5000)]
   \<and> requests (run (Some ''job'') [Mount, Fires 1] initial_page) = 1
   \<and> requests (interval_fires (Some ''job'') 2
       (settled_and_rendered True
         (FetchError (AxiosError (Some 404) (Some ''Not Found'') None
            (Some ''Request failed with status code 404'')))
         (run (Some ''job'') [Mount, Fires 1] initial_page))) = 2"
  by (simp add: page_defs settled_and_rendered_def rerender_def)

text \<open>
  C7. A failure that is not an axios error with response status 404 leaves the status, the
  status last committed, the results, the summary, the polling flag and the timer as they
  are. While the page is mounted it stores the message to display: for an axios error the
  first non-empty one of the \<^verbatim>\<open>detail\<close> of the response body, the \<^verbatim>\<open>message\<close> of
  the response body and the error's own \<^verbatim>\<open>message\<close>, or else the fixed text about
  the connection; for any other thrown value its \<^verbatim>\<open>message\<close> when it has one (empty
  or not), or else the fixed text about an unexpected error.
\<close>

theorem transient_error_keeps_status_sets_error:
  assumes "\<And>detail body_message message.
             e \<noteq> AxiosError (Some 404) detail body_message message"
  shows "status (fetchAssessmentStatus_rejected c e st) = status st
       \<and> lastStatusRef (fetchAssessmentStatus_rejected c e st) = lastStatusRef st
       \<and> results (fetchAssessmentStatus_rejected c e st) = results st
       \<and> summary (fetchAssessmentStatus_rejected c e st) = summary st
       \<and> isPolling (fetchAssessmentStatus_rejected c e st) = isPolling st
       \<and> pollTimerRef (fetchAssessmentStatus_rejected c e st) = pollTimerRef st
       \<and> intervals (fetchAssessmentStatus_rejected c e st) = intervals st
       \<and> (isMountedRef st \<longrightarrow>
            (\<forall>code detail body_message message.
               e = AxiosError code detail body_message message \<longrightarrow>
               error (fetchAssessmentStatus_rejected c e st) =
                 (if detail \<noteq> None \<and> detail \<noteq> Some []
                  then detail
                  else if body_message \<noteq> None \<and> body_message \<noteq> Some []
                  then body_message
                  else if message \<noteq> None \<and> message \<noteq> Some []
                  then message
                  else Some ''Unable to contact the assessment service. Please check your connection.''))
          \<and> (\<forall>message.
               e = OtherError message \<longrightarrow>
               error (fetchAssessmentStatus_rejected c e st) =
                 (case message of
                    Some m \<Rightarrow> Some m
                  | None \<Rightarrow>
                      Some ''An unexpected error occurred while fetching assessment status.'')))"
proof -
  have n: "\<not> is_404 e"
    using assms by (cases e) (auto simp: is_404_def)
  have frame:
    "status (fetchAssessmentStatus_rejected c e st) = status st"
    "lastStatusRef (fetchAssessmentStatus_rejected c e st) = lastStatusRef st"
    "results (fetchAssessmentStatus_rejected c e st) = results st"
    "summary (fetchAssessmentStatus_rejected c e st) = summary st"
    "isPolling (fetchAssessmentStatus_rejected c e st) = isPolling st"
    "pollTimerRef (fetchAssessmentStatus_rejected c e st) = pollTimerRef st"
    "intervals (fetchAssessmentStatus_rejected c e st) = intervals st"
    using n by (simp_all add: fetchAssessmentStatus_rejected_def Let_def)
  have err: "isMountedRef st \<Longrightarrow>
      error (fetchAssessmentStatus_rejected c e st) = Some (failure_message e)"
    using n by (simp add: fetchAssessmentStatus_rejected_def Let_def)
  have axios: "\<And>code detail body_message message.
      Some (failure_message (AxiosError code detail body_message message)) =
        (if detail \<noteq> None \<and> detail \<noteq> Some []
         then detail
         else if body_message \<noteq> None \<and> body_message \<noteq> Some []
         then body_message
         else if message \<noteq> None \<and> message \<noteq> Some []
         then message
         else Some ''Unable to contact the assessment service. Please check your connection.'')"
    by (auto simp: failure_message_def or_else_def truthy_def split: option.splits)
  have other: "\<And>message.
      Some (failure_message (OtherError message)) =
        (case message of
           Some m \<Rightarrow> Some m
         | None \<Rightarrow> Some ''An unexpected error occurred while fetching assessment status.'')"
    by (simp add: failure_message_def nullish_def split: option.splits)
  have a: "isMountedRef st \<longrightarrow>
            (\<forall>code detail body_message message.
               e = AxiosError code detail body_message message \<longrightarrow>
               error (fetchAssessmentStatus_rejected c e st) =
                 (if detail \<noteq> None \<and> detail \<noteq> Some []
                  then detail
                  else if body_message \<noteq> None \<and> body_message \<noteq> Some []
                  then body_message
                  else if message \<noteq> None \<and> message \<noteq> Some []
                  then message
                  else Some ''Unable to contact the assessment service. Please check your connection.''))"
  proof (intro impI allI)
    fix code detail body_message message
    assume m: "isMountedRef st" and eq: "e = AxiosError code detail body_message message"
    have "error (fetchAssessmentStatus_rejected c e st) =
            Some (failure_message (AxiosError code detail body_message message))"
      using err [OF m] by (simp add: eq)
    also note axios [of code detail body_message message]
    finally show "error (fetchAssessmentStatus_rejected c e st) =
                 (if detail \<noteq> None \<and> detail \<noteq> Some []
                  then detail
                  else if body_message \<noteq> None \<and> body_message \<noteq> Some []
                  then body_message
                  else if message \<noteq> None \<and> message \<noteq> Some []
                  then message
                  else Some ''Unable to contact the assessment service. Please check your connection.'')" .
  qed
  have b: "isMountedRef st \<longrightarrow>
            (\<forall>message.
               e = OtherError message \<longrightarrow>
               error (fetchAssessmentStatus_rejected c e st) =
                 (case message of
                    Some m \<Rightarrow> Some m
                  | None \<Rightarrow>
                      Some ''An unexpected error occurred while fetching assessment status.''))"
  proof (intro impI allI)
    fix message
    assume m: "isMountedRef st" and eq: "e = OtherError message"
    have "error (fetchAssessmentStatus_rejected c e st) =
            Some (failure_message (OtherError message))"
      using err [OF m] by (simp add: eq)
    also note other [of message]
    finally show "error (fetchAssessmentStatus_rejected c e st) =
                 (case message of
                    Some m \<Rightarrow> Some m
                  | None \<Rightarrow>
                      Some ''An unexpected error occurred while fetching assessment status.'')" .
  qed
  show ?thesis
    using frame a b by blast
qed

theorem transient_error_keeps_status_sets_error_witness:
  "status (fetchAssessmentStatus_rejected False
        (AxiosError (Some 500) (Some []) (Some ''Internal error'') (Some ''Request failed''))
        (run (Some ''job'')
          [Mount, Fires 1,
           Settled True (FetchOk \<lparr>data_status = In_progress, data_results = None,
                                   data_summary = None\<rparr>),
           Cleanup, Mount, Fires 2] initial_page)) = Some In_progress
   \<and> error (fetchAssessmentStatus_rejected False
        (AxiosError (Some 500) (Some []) (Some ''Internal error'') (Some ''Request failed''))
        (run (Some ''job'')
          [Mount, Fires 1,
           Settled True (FetchOk \<lparr>data_status = In_progress, data_results = None,
                                   data_summary = None\<rparr>),
           Cleanup, Mount, Fires 2] initial_page)) = Some ''Internal error''"
proof -
  let ?e = "AxiosError (Some 500) (Some []) (Some ''Internal error'') (Some ''Request failed'')"
  let ?st = "run (Some ''job'')
          [Mount, Fires 1,
           Settled True (FetchOk \<lparr>data_status = In_progress, data_results = None,
                                   data_summary = None\<rparr>),
           Cleanup, Mount, Fires 2] initial_page"
  have h: "\<And>detail body_message message.
             ?e \<noteq> AxiosError (Some 404) detail body_message message"
    by simp
  have s: "status ?st = Some In_progress" "isMountedRef ?st" by (simp_all add: page_defs)
  show ?thesis
    using s transient_error_keeps_status_sets_error [OF h, where c = False and st = ?st]
    by simp
qed

text \<open>
  C10. The 404 branch, field by field: results, summary and error are retained (with the
  mounted flag, the identifier counter and the request count); what changes is the status
  with the status last committed, the polling flag, the timer handle with its interval,
  and the initial-loading flag, which is cleared when the closure saw it set.
\<close>

theorem not_found_frame:
  assumes "isMountedRef st" and "is_404 e"
  shows "results (fetchAssessmentStatus_rejected c e st) = results st
       \<and> summary (fetchAssessmentStatus_rejected c e st) = summary st
       \<and> error (fetchAssessmentStatus_rejected c e st) = error st
       \<and> isMountedRef (fetchAssessmentStatus_rejected c e st) = isMountedRef st
       \<and> nextIntervalId (fetchAssessmentStatus_rejected c e st) = nextIntervalId st
       \<and> requests (fetchAssessmentStatus_rejected c e st) = requests st
       \<and> status (fetchAssessmentStatus_rejected c e st) = Some Not_found
       \<and> lastStatusRef (fetchAssessmentStatus_rejected c e st) = Some Not_found
       \<and> isPolling (fetchAssessmentStatus_rejected c e st) = False
       \<and> pollTimerRef (fetchAssessmentStatus_rejected c e st) = None
       \<and> intervals (fetchAssessmentStatus_rejected c e st) =
           (case pollTimerRef st of
              None \<Rightarrow> intervals st
            | Some t \<Rightarrow> filter (\<lambda>e. fst e \<noteq> t) (intervals st))
       \<and> isInitialLoading (fetchAssessmentStatus_rejected c e st) =
           (isInitialLoading st \<and> \<not> c)"
  using assms
  by (simp add: fetchAssessmentStatus_rejected_def Let_def clearPollTimer_simps
           split: option.splits)

theorem not_found_frame_witness:
  "results (fetchAssessmentStatus_rejected False
        (AxiosError (Some 404) (Some ''Not Found'') None None)
        (run (Some ''job'')
          [Mount, Fires 1,
           Settled True (FetchOk \<lparr>data_status = In_progress,
              data_results = Some [(''rear'', Some \<lparr>pickup_image = Some ''p.jpg'',
                 return_image = Some ''r.jpg'', annotated_return_image = None\<rparr>)],
              data_summary = Some ''Partial''\<rparr>),
           Cleanup, Mount, Fires 2,
           Settled False (FetchError (OtherError (Some ''timeout'')))] initial_page)) ''rear'' =
       Some \<lparr>pickupUrl = Some ''p.jpg'', resultUrl = Some ''r.jpg''\<rparr>
   \<and> summary (fetchAssessmentStatus_rejected False
        (AxiosError (Some 404) (Some ''Not Found'') None None)
        (run (Some ''job'')
          [Mount, Fires 1,
           Settled True (FetchOk \<lparr>data_status = In_progress,
              data_results = Some [(''rear'', Some \<lparr>pickup_image = Some ''p.jpg'',
                 return_image = Some ''r.jpg'', annotated_return_image = None\<rparr>)],
              data_summary = Some ''Partial''\<rparr>),
           Cleanup, Mount, Fires 2,
           Settled False (FetchError (OtherError (Some ''timeout'')))] initial_page)) =
       Some ''Partial''
   \<and> error (fetchAssessmentStatus_rejected False
        (AxiosError (Some 404) (Some ''Not Found'') None None)
        (run (Some ''job'')
          [Mount, Fires 1,
           Settled True (FetchOk \<lparr>data_status = In_progress,
              data_results = Some [(''rear'', Some \<lparr>pickup_image = Some ''p.jpg'',
                 return_image = Some ''r.jpg'', annotated_return_image = None\<rparr>)],
              data_summary = Some ''Partial''\<rparr>),
           Cleanup, Mount, Fires 2,
           Settled False (FetchError (OtherError (Some ''timeout'')))] initial_page)) =
       Some ''timeout''"
proof -
  let ?e = "AxiosError (Some 404) (Some ''Not Found'') None None"
  let ?st = "run (Some ''job'')
          [Mount, Fires 1,
           Settled True (FetchOk \<lparr>data_status = In_progress,
              data_results = Some [(''rear'', Some \<lparr>pickup_image = Some ''p.jpg'',
                 return_image = Some ''r.jpg'', annotated_return_image = None\<rparr>)],
              data_summary = Some ''Partial''\<rparr>),
           Cleanup, Mount, Fires 2,
           Settled False (FetchError (OtherError (Some ''timeout'')))] initial_page"
  have h1: "isMountedRef ?st" by (simp add: page_defs)
  have h2: "is_404 ?e" by (simp add: is_404_def)
  have f: "results ?st ''rear'' = Some \<lparr>pickupUrl = Some ''p.jpg'', resultUrl = Some ''r.jpg''\<rparr>"
    "summary ?st = Some ''Partial''" "error ?st = Some ''timeout''"
    by (simp_all add: page_defs)
  show ?thesis
    using f not_found_frame [OF h1 h2, where c = False]
    by simp
qed

section \<open>Unmounting\<close>

text \<open>
  C8. The cleanup of the mount effect clears the mounted flag and the timer, so that under
  the timer discipline the window holds no interval any more; every request that settles
  afterwards, fulfilled or rejected, leaves the whole state as it is, and so does every run
  of firings and settled requests in which the page is not mounted again.
\<close>

theorem detached_page_is_frozen:
  assumes "timer_inv st"
  shows "fetchAssessmentStatus_settled c out (effect_cleanup st) = effect_cleanup st
       \<and> pollTimerRef (effect_cleanup st) = None
       \<and> intervals (effect_cleanup st) = []
       \<and> (Mount \<notin> set evs \<longrightarrow> run uploadId evs (effect_cleanup st) = effect_cleanup st)"
  using assms
  by (simp add: settled_unmounted cleanup_fields cleanup_intervals detached_run)

theorem detached_page_is_frozen_witness:
  "timer_inv (effect_mount initial_page)
   \<and> intervals (effect_mount initial_page) = [(1, 5000)]
   \<and> intervals (effect_cleanup (effect_mount initial_page)) = []
   \<and> run (Some ''job'')
       [Fires 1,
        Settled True (FetchOk \<lparr>data_status = Complete, data_results = None,
                                data_summary = Some ''No damage''\<rparr>)]
       (effect_cleanup (effect_mount initial_page)) = effect_cleanup (effect_mount initial_page)"
proof -
  have h: "timer_inv (effect_mount initial_page)" by (simp add: page_defs)
  have i: "intervals (effect_mount initial_page) = [(1, 5000)]" by (simp add: page_defs)
  show ?thesis
    using h i detached_page_is_frozen [OF h, where uploadId = "Some ''job''"
      and evs = "[Fires 1,
        Settled True (FetchOk \<lparr>data_status = Complete, data_results = None,
                                data_summary = Some ''No damage''\<rparr>)]"]
    by simp
qed

section \<open>Starting to poll\<close>

lemma startPolling_unarmed:
  assumes "pollTimerRef st = None"
  shows "requests (startPolling st) = requests st"
    and "intervals (startPolling st) = intervals st @ [(nextIntervalId st, 5000)]"
    and "pollTimerRef (startPolling st) = Some (nextIntervalId st)"
    and "isPolling (startPolling st)"
  using assms by (simp_all add: startPolling_def setInterval_def POLL_INTERVAL_MS_def)

lemma startPolling_armed: "pollTimerRef st \<noteq> None \<Longrightarrow> startPolling st = st"
  by (simp add: startPolling_def)

text \<open>
  C2 at the initial page: \<^verbatim>\<open>startPolling\<close> sets the polling flag and registers one
  interval of 5000 ms, and issues no request; the first request is issued only when that
  interval fires for the first time.
\<close>

theorem startPolling_dispatches_no_fetch:
  "requests (startPolling initial_page) = requests initial_page
   \<and> requests initial_page = 0
   \<and> intervals (startPolling initial_page) = [(1, 5000)]
   \<and> pollTimerRef (startPolling initial_page) = Some 1
   \<and> isPolling (startPolling initial_page)
   \<and> requests (run (Some ''job'') [Mount] initial_page) = 0
   \<and> requests (run (Some ''job'') [Mount, Fires 1] initial_page) = 1"
  by (simp add: page_defs)

end
